theory Spec2Isabelle
  imports Main
begin

section \<open>Python values handled by the client\<close>

text \<open>
  The client of \<^verbatim>\<open>verus_client.py\<close> moves decoded JSON between its caller and the
  daemon. A decoded JSON value is \<^verbatim>\<open>None\<close>, a bool, an int (unbounded), a float, a
  \<^verbatim>\<open>str\<close>, a \<^verbatim>\<open>list\<close> or a \<^verbatim>\<open>dict\<close> with string keys. A float is carried by the
  text that \<^verbatim>\<open>repr()\<close> prints for it (\<^verbatim>\<open>1.5\<close>, \<^verbatim>\<open>1e+22\<close>, \<^verbatim>\<open>-0.0\<close>, \<^verbatim>\<open>nan\<close>), which
  determines the float: the client never computes with one. A \<^verbatim>\<open>str\<close> is a
  list of code points, here restricted to U+0000..U+00FF (one \<open>char\<close> each). A
  \<^verbatim>\<open>dict\<close> keeps its insertion order and is an association list; a dictionary that
  Python can build has pairwise different keys.
\<close>

datatype json =
    JNull
  | JBool bool
  | JInt int
  | JFloat string
  | JStr string
  | JArr "json list"
  | JObj "(string \<times> json) list"

type_synonym dict = "(string \<times> json) list"

text \<open>\<^verbatim>\<open>d[k] = v\<close>: an existing key keeps its place, a new key goes last.\<close>

fun setitem :: "string \<Rightarrow> json \<Rightarrow> dict \<Rightarrow> dict" where
  "setitem k v [] = [(k, v)]"
| "setitem k v ((k', v') # d) =
     (if k' = k then (k', v) # d else (k', v') # setitem k v d)"

text \<open>\<^verbatim>\<open>d.update(entries)\<close>: the entries are stored one by one, in their order.\<close>

definition dict_update :: "dict \<Rightarrow> dict \<Rightarrow> dict" where
  "dict_update d entries = foldl (\<lambda>acc (k, v). setitem k v acc) d entries"

text \<open>\<^verbatim>\<open>d.get(k)\<close>: the value stored under \<open>k\<close>, \<^verbatim>\<open>None\<close> when there is none.\<close>

definition dict_get :: "dict \<Rightarrow> string \<Rightarrow> json" where
  "dict_get d k = (case map_of d k of None \<Rightarrow> JNull | Some v \<Rightarrow> v)"

text \<open>\<^verbatim>\<open>isinstance(v, dict)\<close> on a decoded JSON value.\<close>

fun is_dict :: "json \<Rightarrow> bool" where
  "is_dict (JObj d) = True"
| "is_dict v = False"

text \<open>
  An argument with a default value: \<open>None\<close> is the argument left out by the caller.
\<close>

fun arg_default :: "'a \<Rightarrow> 'a option \<Rightarrow> 'a" where
  "arg_default d None = d"
| "arg_default d (Some v) = v"

subsection \<open>Exceptions\<close>

text \<open>
  \<open>TypeError\<close>, \<open>NameError\<close> and \<open>AttributeError\<close> are raised by the
  interpreter, \<open>HTTPError\<close> and \<open>JSONDecodeError\<close> by the HTTP library,
  \<open>ValueError\<close> and \<open>Exception\<close> by the client's own \<^verbatim>\<open>raise\<close> statements, each
  with its message, one \<^verbatim>\<open>str\<close>.
\<close>

datatype exn =
    ValueError string
  | Exception string
  | TypeError
  | NameError string
  | AttributeError
  | ConnectionError string
  | HTTPError nat
  | JSONDecodeError

section \<open>The response record\<close>

text \<open>
  \<^verbatim>\<open>
  class VerusResponseData:
      def __init__(self, **entries):
          self.__dict__.update(entries)
          self.response = None
  \<close>
  An instance is its instance dictionary \<^verbatim>\<open>__dict__\<close>, and an attribute of the record is
  an entry of that dictionary. The call \<^verbatim>\<open>VerusResponseData(**res)\<close> passes every key of
  \<^verbatim>\<open>res\<close> as a keyword argument; the keyword \<^verbatim>\<open>self\<close> collides with the first
  parameter of \<^verbatim>\<open>__init__\<close>, and the interpreter raises \<^verbatim>\<open>TypeError\<close> before the body
  runs. Every other keyword lands in \<^verbatim>\<open>entries\<close>.
\<close>

definition VerusResponseData_init :: "dict \<Rightarrow> exn + dict" where
  "VerusResponseData_init entries =
     (if ''self'' \<in> set (map fst entries) then Inl TypeError
      else Inr (setitem ''response'' JNull (dict_update [] entries)))"

text \<open>What a catalogue method returns: a record, or the daemon's value as it is.\<close>

datatype result = Data dict | Plain json

text \<open>\<^verbatim>\<open>getattr(data, name)\<close> on what a catalogue method returned.\<close>

fun attribute :: "result \<Rightarrow> string \<Rightarrow> json option" where
  "attribute (Data d) name = map_of d name"
| "attribute (Plain v) name = None"

section \<open>The client\<close>

record VerusClient =
  host :: string
  network :: string
  rpc_user :: string
  rpc_password :: string
  port :: nat
  native_currency :: string
  url :: string

text \<open>
  \<^verbatim>\<open>str.lower()\<close> on code points below U+0100: the letters A to Z and the capital
  letters of Latin-1 (U+00C0 to U+00DE, the multiplication sign U+00D7 apart) move up by
  32, every other code point stays.
\<close>

definition lower_char :: "char \<Rightarrow> char" where
  "lower_char c =
     (let n = (of_char c :: nat) in
      if (65 \<le> n \<and> n \<le> 90) \<or> (192 \<le> n \<and> n \<le> 222 \<and> n \<noteq> 215)
      then char_of (n + 32) else c)"

definition lower :: "string \<Rightarrow> string" where
  "lower s = map lower_char s"

text \<open>\<^verbatim>\<open>str(n)\<close> for a non-negative int: its decimal digits.\<close>

fun str_nat :: "nat \<Rightarrow> string" where
  "str_nat n =
     (if n < 10 then [char_of (48 + n)]
      else str_nat (n div 10) @ [char_of (48 + n mod 10)])"

declare str_nat.simps [simp del]

text \<open>
  \<^verbatim>\<open>
  def __init__(self, host='127.0.0.1', network='mainnet',
               rpc_user='username', rpc_password='password'):
      self.host = host
      self.network = network.lower()
      self.rpc_user = rpc_user
      self.rpc_password = rpc_password
      if self.network == 'mainnet':
          self.port = 27486
          self.native_currency = 'vrsc'
      elif self.network == 'testnet':
          self.port = 18843
          self.native_currency = 'vrsctest'
      else:
          raise ValueError("Network must be 'mainnet' or 'testnet'")
      self.url = f"http://{self.host}:{self.port}/"
  \<close>
  The constructor returns the instance, or raises; an instance whose \<^verbatim>\<open>__init__\<close>
  raised is never handed to the caller.
\<close>

definition network_error :: string where
  "network_error =
     ''Network must be '' @ [CHR 0x27] @ ''mainnet'' @ [CHR 0x27] @ '' or ''
       @ [CHR 0x27] @ ''testnet'' @ [CHR 0x27]"

definition init ::
  "string option \<Rightarrow> string option \<Rightarrow> string option \<Rightarrow> string option \<Rightarrow> exn + VerusClient"
where
  "init host_arg network_arg rpc_user_arg rpc_password_arg =
     (let h = arg_default ''127.0.0.1'' host_arg;
          nw = lower (arg_default ''mainnet'' network_arg);
          u = arg_default ''username'' rpc_user_arg;
          p = arg_default ''password'' rpc_password_arg
      in if nw = ''mainnet'' then
           Inr \<lparr>host = h, network = nw, rpc_user = u, rpc_password = p,
                port = 27486, native_currency = ''vrsc'',
                url = ''http://'' @ h @ '':'' @ str_nat 27486 @ ''/''\<rparr>
         else if nw = ''testnet'' then
           Inr \<lparr>host = h, network = nw, rpc_user = u, rpc_password = p,
                port = 18843, native_currency = ''vrsctest'',
                url = ''http://'' @ h @ '':'' @ str_nat 18843 @ ''/''\<rparr>
         else Inl (ValueError network_error))"

section \<open>Formatting a value into a string\<close>

text \<open>
  The f-string \<^verbatim>\<open>f"RPC Error: {result['error']}"\<close> formats a decoded JSON value with
  \<^verbatim>\<open>str()\<close>. For a \<^verbatim>\<open>str\<close> that is the string itself; for every other value it is
  \<^verbatim>\<open>repr()\<close>: \<^verbatim>\<open>None\<close>, \<^verbatim>\<open>True\<close>, \<^verbatim>\<open>False\<close>, the decimal digits of an int, the
  text of a float, and for a list or a dictionary the \<^verbatim>\<open>repr()\<close> of the members
  between brackets or braces, separated by a comma and a space.

  \<^verbatim>\<open>repr()\<close> of a \<^verbatim>\<open>str\<close> puts it between single quotes, or between double quotes
  when it has a single quote and no double quote. Inside, the quote in use and the
  backslash get a backslash, tab, newline and carriage return are written \<^verbatim>\<open>\t\<close>,
  \<^verbatim>\<open>\n\<close>, \<^verbatim>\<open>\r\<close>, and a code point that is not printable (below U+0020, U+007F to
  U+00A0, U+00AD) is written \<^verbatim>\<open>\x\<close> and two hexadecimal digits.
\<close>

definition str_int :: "int \<Rightarrow> string" where
  "str_int i = (if i < 0 then ''-'' @ str_nat (nat (- i)) else str_nat (nat i))"

definition hex2 :: "nat \<Rightarrow> string" where
  "hex2 n = [''0123456789abcdef'' ! (n div 16 mod 16), ''0123456789abcdef'' ! (n mod 16)]"

definition printable :: "char \<Rightarrow> bool" where
  "printable c =
     (let n = (of_char c :: nat) in (32 \<le> n \<and> n < 127) \<or> (161 \<le> n \<and> n \<noteq> 173))"

definition repr_char :: "char \<Rightarrow> char \<Rightarrow> string" where
  "repr_char quote c =
     (if c = quote \<or> c = CHR 0x5C then [CHR 0x5C, c]
      else if c = CHR 0x09 then [CHR 0x5C, CHR ''t'']
      else if c = CHR 0x0A then [CHR 0x5C, CHR ''n'']
      else if c = CHR 0x0D then [CHR 0x5C, CHR ''r'']
      else if printable c then [c]
      else [CHR 0x5C, CHR ''x''] @ hex2 (of_char c))"

definition repr_str :: "string \<Rightarrow> string" where
  "repr_str s =
     (let quote = (if CHR 0x27 \<in> set s \<and> CHR 0x22 \<notin> set s then CHR 0x22 else CHR 0x27)
      in [quote] @ concat (map (repr_char quote) s) @ [quote])"

fun py_repr :: "json \<Rightarrow> string"
  and repr_items :: "json list \<Rightarrow> string"
  and repr_entries :: "(string \<times> json) list \<Rightarrow> string"
where
  "py_repr JNull = ''None''"
| "py_repr (JBool b) = (if b then ''True'' else ''False'')"
| "py_repr (JInt i) = str_int i"
| "py_repr (JFloat r) = r"
| "py_repr (JStr s) = repr_str s"
| "py_repr (JArr xs) = ''['' @ repr_items xs @ '']''"
| "py_repr (JObj d) = ''{'' @ repr_entries d @ ''}''"
| "repr_items [] = []"
| "repr_items [x] = py_repr x"
| "repr_items (x # y # ys) = py_repr x @ '', '' @ repr_items (y # ys)"
| "repr_entries [] = []"
| "repr_entries [(k, v)] = repr_str k @ '': '' @ py_repr v"
| "repr_entries ((k, v) # e # es) =
     repr_str k @ '': '' @ py_repr v @ '', '' @ repr_entries (e # es)"

fun py_str :: "json \<Rightarrow> string" where
  "py_str (JStr s) = s"
| "py_str v = py_repr v"

section \<open>One HTTP exchange\<close>

text \<open>
  \<^verbatim>\<open>requests.post(url, auth=..., data=..., headers=...)\<close> is the HTTP library's. What
  the client hands to it is a \<open>http_request\<close>; the body is the value given to
  \<^verbatim>\<open>json.dumps\<close>, whose text is the library's. What comes back is an exception of the
  library or a response, of which the client reads the status (in
  \<^verbatim>\<open>raise_for_status()\<close>, which raises for 400 to 599) and the decoded body
  (\<^verbatim>\<open>response.json()\<close>, which raises when the body is not JSON). The daemon and the
  network together are a function from requests to answers; a call returns the requests
  it posted, in order, with its value or its exception.
\<close>

record http_request =
  req_verb :: string
  req_url :: string
  req_auth :: "string \<times> string"
  req_data :: json
  req_headers :: "(string \<times> string) list"

record http_response =
  status_code :: nat
  json_body :: "json option"

type_synonym transport = "http_request \<Rightarrow> exn + http_response"

type_synonym 'a io = "http_request list \<times> (exn + 'a)"

text \<open>
  \<^verbatim>\<open>
  def _rpc_request(self, method, params):
      payload = {"jsonrpc": "1.0", "id": "python-client",
                 "method": method, "params": params}
      headers = {"content-type": "text/plain"}
      response = requests.post(self.url, auth=(self.rpc_user, self.rpc_password),
                               data=json.dumps(payload), headers=headers)
      response.raise_for_status()
      result = response.json()
      if result.get("error") is not None:
          raise Exception(f"RPC Error: {result['error']}")
      return result
  \<close>
  A decoded body that is not a dictionary has no \<^verbatim>\<open>get\<close>: \<^verbatim>\<open>AttributeError\<close>.
\<close>

definition rpc_request :: "transport \<Rightarrow> VerusClient \<Rightarrow> string \<Rightarrow> json list \<Rightarrow> dict io" where
  "rpc_request post self method params =
     (let payload = JObj [(''jsonrpc'', JStr ''1.0''), (''id'', JStr ''python-client''),
                          (''method'', JStr method), (''params'', JArr params)];
          headers = [(''content-type'', ''text/plain'')];
          request = \<lparr>req_verb = ''POST'', req_url = url self,
                     req_auth = (rpc_user self, rpc_password self),
                     req_data = payload, req_headers = headers\<rparr>
      in ([request],
          case post request of
            Inl e \<Rightarrow> Inl e
          | Inr response \<Rightarrow>
              if 400 \<le> status_code response \<and> status_code response < 600
              then Inl (HTTPError (status_code response))
              else (case json_body response of
                      None \<Rightarrow> Inl JSONDecodeError
                    | Some (JObj result) \<Rightarrow>
                        if dict_get result ''error'' \<noteq> JNull
                        then Inl (Exception (''RPC Error: ''
                                             @ py_str (dict_get result ''error'')))
                        else Inr result
                    | Some other \<Rightarrow> Inl AttributeError)))"

text \<open>
  \<^verbatim>\<open>
  def _handle_response(self, response):
      res = response.get("result")
      if isinstance(res, dict):
          data = VerusResponseData(**res)
          data.response = res
          return data
      else:
          return res
  \<close>
\<close>

definition handle_response :: "dict \<Rightarrow> exn + result" where
  "handle_response response =
     (let res = dict_get response ''result'' in
      case res of
        JObj r \<Rightarrow>
          (case VerusResponseData_init r of
             Inl e \<Rightarrow> Inl e
           | Inr data \<Rightarrow> Inr (Data (setitem ''response'' res data)))
      | other \<Rightarrow> Inr (Plain res))"

section \<open>The method catalogue\<close>

text \<open>
  Every catalogue method ends with
  \<^verbatim>\<open>response = self._rpc_request(...); return self._handle_response(response)\<close>:
  an exception of the first statement leaves the method, otherwise the second runs on
  what the first returned.
\<close>

fun and_then :: "'a io \<Rightarrow> ('a \<Rightarrow> exn + 'b) \<Rightarrow> 'b io" where
  "and_then (sent, Inl e) f = (sent, Inl e)"
| "and_then (sent, Inr response) f = (sent, f response)"

text \<open>
  \<^verbatim>\<open>
  def getbestblockhash(self):
      response = self._rpc_request("getbestblockhash", [])
      return self._handle_response(response)

  def getblock(self, hash_or_height, verbosity=1):
      response = self._rpc_request("getblock", [hash_or_height, verbosity])
      return self._handle_response(response)
  \<close>
\<close>

definition getbestblockhash :: "transport \<Rightarrow> VerusClient \<Rightarrow> result io" where
  "getbestblockhash post self =
     and_then (rpc_request post self ''getbestblockhash'' []) handle_response"

definition getblock :: "transport \<Rightarrow> VerusClient \<Rightarrow> json \<Rightarrow> json option \<Rightarrow> result io" where
  "getblock post self hash_or_height verbosity_arg =
     (let verbosity = arg_default (JInt 1) verbosity_arg
      in and_then (rpc_request post self ''getblock'' [hash_or_height, verbosity])
           handle_response)"

text \<open>
  \<^verbatim>\<open>
  def getimports(self, currency, heightstart=None, heightend=None):
      params = [currency]
      if heightstart is not None:
          params.append(heightstart)
      else:
          params.append("")
      if heightend is not None:
              params.append(heightend)
      response = self._rpc_request("getimports", [currency])
      return self._handle_response(response)
  \<close>
\<close>

definition getimports ::
  "transport \<Rightarrow> VerusClient \<Rightarrow> json \<Rightarrow> json option \<Rightarrow> json option \<Rightarrow> result io"
where
  "getimports post self currency heightstart_arg heightend_arg =
     (let heightstart = arg_default JNull heightstart_arg;
          heightend = arg_default JNull heightend_arg;
          params = [currency];
          params = (if heightstart \<noteq> JNull then params @ [heightstart]
                    else params @ [JStr '''']);
          params = (if heightend \<noteq> JNull then params @ [heightend] else params)
      in and_then (rpc_request post self ''getimports'' [currency]) handle_response)"

text \<open>
  \<^verbatim>\<open>
  def getexports(self, curency, heightstart=None, heightend=None):
      params = [currency]
      if heightstart is not None:
          params.append(heightstart)
      else:
          params.append("")
      if heightend is not None:
              params.append(heightend)
      response = self._rpc_request("getexports", [])
      return self._handle_response(response)
  \<close>
  The first parameter is spelled \<^verbatim>\<open>curency\<close>, the body reads \<^verbatim>\<open>currency\<close>. A name
  is looked up among the locals of the call; the module defines no global
  \<^verbatim>\<open>currency\<close> and Python has no such builtin, so a name that is no local raises
  \<^verbatim>\<open>NameError\<close>.
\<close>

definition load_name :: "(string \<times> json) list \<Rightarrow> string \<Rightarrow> exn + json" where
  "load_name scope name =
     (case map_of scope name of None \<Rightarrow> Inl (NameError name) | Some v \<Rightarrow> Inr v)"

definition getexports ::
  "transport \<Rightarrow> VerusClient \<Rightarrow> json \<Rightarrow> json option \<Rightarrow> json option \<Rightarrow> result io"
where
  "getexports post self curency heightstart_arg heightend_arg =
     (let heightstart = arg_default JNull heightstart_arg;
          heightend = arg_default JNull heightend_arg;
          scope = [(''curency'', curency), (''heightstart'', heightstart),
                   (''heightend'', heightend)]
      in case load_name scope ''currency'' of
           Inl e \<Rightarrow> ([], Inl e)
         | Inr currency \<Rightarrow>
             (let params = [currency];
                  params = (if heightstart \<noteq> JNull then params @ [heightstart]
                            else params @ [JStr '''']);
                  params = (if heightend \<noteq> JNull then params @ [heightend] else params)
              in and_then (rpc_request post self ''getexports'' []) handle_response))"

section \<open>Notions used by the properties\<close>

text \<open>
  Two strings are equal when compared case-insensitively: they have the same length and,
  place by place, the same character once its case is set aside.
\<close>

definition equal_ignoring_case :: "string \<Rightarrow> string \<Rightarrow> bool" where
  "equal_ignoring_case s t = list_all2 (\<lambda>a b. lower_char a = lower_char b) s t"

text \<open>
  The request that \<^verbatim>\<open>_rpc_request(method, params)\<close> hands to \<^verbatim>\<open>requests.post\<close>
  (lemma \<open>rpc_request_sent\<close>): the hypotheses on the daemon's answer speak of it.
\<close>

definition posted_request :: "VerusClient \<Rightarrow> string \<Rightarrow> json list \<Rightarrow> http_request" where
  "posted_request self method params =
     \<lparr>req_verb = ''POST'', req_url = url self,
      req_auth = (rpc_user self, rpc_password self),
      req_data = JObj [(''jsonrpc'', JStr ''1.0''), (''id'', JStr ''python-client''),
                       (''method'', JStr method), (''params'', JArr params)],
      req_headers = [(''content-type'', ''text/plain'')]\<rparr>"

text \<open>\<^verbatim>\<open>raise_for_status()\<close> lets a status pass when it is not in 400..599.\<close>

definition status_ok :: "nat \<Rightarrow> bool" where
  "status_ok code = (\<not> (400 \<le> code \<and> code < 600))"

text \<open>
  A daemon that answers every request with status 200 and the same decoded body, and the
  client that \<^verbatim>\<open>VerusClient()\<close> builds when every argument is left out.
\<close>

definition mocked :: "json \<Rightarrow> transport" where
  "mocked body request = Inr \<lparr>status_code = 200, json_body = Some body\<rparr>"

definition default_client :: VerusClient where
  "default_client =
     \<lparr>host = ''127.0.0.1'', network = ''mainnet'', rpc_user = ''username'',
      rpc_password = ''password'', port = 27486, native_currency = ''vrsc'',
      url = ''http://127.0.0.1:27486/''\<rparr>"

section \<open>Dictionaries\<close>

lemma setitem_fresh: "k \<notin> set (map fst d) \<Longrightarrow> setitem k v d = d @ [(k, v)]"
  by (induction d) auto

lemma dict_update_append:
  "distinct (map fst (d @ es)) \<Longrightarrow> dict_update d es = d @ es"
proof (induction es arbitrary: d)
  case Nil
  then show ?case by (simp add: dict_update_def)
next
  case (Cons e es)
  obtain k v where e: "e = (k, v)" by (cases e)
  from Cons.prems e have fresh: "k \<notin> set (map fst d)" by auto
  from Cons.prems e have "distinct (map fst ((d @ [(k, v)]) @ es))" by auto
  from Cons.IH[OF this] show ?case
    using e fresh by (simp add: dict_update_def setitem_fresh)
qed

lemma map_of_setitem: "map_of (setitem k v d) = (map_of d)(k \<mapsto> v)"
  by (induction d) (auto simp: fun_eq_iff)

lemma keys_setitem: "fst ` set (setitem k v d) = insert k (fst ` set d)"
  by (induction d) force+

lemma setitem_twice: "setitem k v (setitem k w d) = setitem k v d"
  by (induction d) auto

text \<open>A value stored in a dictionary is smaller than the dictionary.\<close>

lemma size_member: "(k, v) \<in> set r \<Longrightarrow> size v < size (JObj r)"
  by (induction r) auto

section \<open>Normalisation of a dictionary result\<close>

lemma VerusResponseData_init_ok:
  assumes "distinct (map fst r)" and "''self'' \<notin> set (map fst r)"
  shows "VerusResponseData_init r = Inr (setitem ''response'' JNull r)"
  using assms dict_update_append[of "[]" r] by (simp add: VerusResponseData_init_def)

lemma handle_response_dict:
  assumes "dict_get response ''result'' = JObj r"
    and "distinct (map fst r)" and "''self'' \<notin> set (map fst r)"
  shows "handle_response response = Inr (Data (setitem ''response'' (JObj r) r))"
  using assms
  by (simp add: handle_response_def VerusResponseData_init_ok setitem_twice)

text \<open>
  C1, as stated: the record has every key of the result as an attribute with the key's
  value, and one more field holding the mapping. For the result
  \<^verbatim>\<open>{"response": 1}\<close> the record is \<^verbatim>\<open>{'response': {'response': 1}}\<close>: its attribute
  \<^verbatim>\<open>response\<close> is the mapping and not \<open>1\<close>, the value of the key.
\<close>

theorem handle_response_response_key_counterexample:
  "handle_response [(''result'', JObj [(''response'', JInt 1)]), (''error'', JNull)]
     = Inr (Data [(''response'', JObj [(''response'', JInt 1)])])
   \<and> attribute (Data [(''response'', JObj [(''response'', JInt 1)])]) ''response''
       \<noteq> map_of [(''response'', JInt 1)] ''response''"
  by (simp add: handle_response_def dict_get_def VerusResponseData_init_def dict_update_def)

text \<open>
  C1, amended: when the result is a dictionary with no key \<^verbatim>\<open>self\<close>,
  \<^verbatim>\<open>_handle_response\<close> returns a record whose attributes are the keys of the result
  and \<^verbatim>\<open>response\<close>; every key other than \<^verbatim>\<open>response\<close> has its value, and
  \<^verbatim>\<open>response\<close> holds the result dictionary as the daemon sent it.
\<close>

theorem handle_response_record:
  assumes "dict_get response ''result'' = JObj r"
    and "distinct (map fst r)" and "''self'' \<notin> set (map fst r)"
  shows "\<exists>d. handle_response response = Inr (Data d)
           \<and> set (map fst d) = insert ''response'' (set (map fst r))
           \<and> (\<forall>k. k \<noteq> ''response'' \<longrightarrow> attribute (Data d) k = map_of r k)
           \<and> attribute (Data d) ''response'' = Some (JObj r)"
  using handle_response_dict[OF assms]
  by (simp add: keys_setitem map_of_setitem)

text \<open>
  The result \<^verbatim>\<open>{"a": 1, "b": "x"}\<close>: attribute \<open>a\<close> is 1, attribute \<open>b\<close> is
  \<^verbatim>\<open>"x"\<close>, and \<^verbatim>\<open>response\<close> is the dictionary.
\<close>

theorem handle_response_record_witness:
  "dict_get [(''result'', JObj [(''a'', JInt 1), (''b'', JStr ''x'')]), (''error'', JNull),
             (''id'', JStr ''python-client'')] ''result''
     = JObj [(''a'', JInt 1), (''b'', JStr ''x'')]
   \<and> distinct (map fst [(''a'', JInt 1), (''b'', JStr ''x'')])
   \<and> ''self'' \<notin> set (map fst [(''a'', JInt 1), (''b'', JStr ''x'')])
   \<and> (\<exists>d. handle_response [(''result'', JObj [(''a'', JInt 1), (''b'', JStr ''x'')]),
                              (''error'', JNull), (''id'', JStr ''python-client'')]
              = Inr (Data d)
          \<and> attribute (Data d) ''a'' = Some (JInt 1)
          \<and> attribute (Data d) ''b'' = Some (JStr ''x'')
          \<and> attribute (Data d) ''response''
              = Some (JObj [(''a'', JInt 1), (''b'', JStr ''x'')]))"
proof -
  let ?r = "[(''a'', JInt 1), (''b'', JStr ''x'')]"
  let ?resp = "[(''result'', JObj ?r), (''error'', JNull), (''id'', JStr ''python-client'')]"
  have h1: "dict_get ?resp ''result'' = JObj ?r" by (simp add: dict_get_def)
  have h2: "distinct (map fst ?r)" by simp
  have h3: "''self'' \<notin> set (map fst ?r)" by simp
  from handle_response_record[OF h1 h2 h3] obtain d where
    d1: "handle_response ?resp = Inr (Data d)" and
    d2: "\<forall>k. k \<noteq> ''response'' \<longrightarrow> attribute (Data d) k = map_of ?r k" and
    d3: "attribute (Data d) ''response'' = Some (JObj ?r)"
    by blast
  have a: "attribute (Data d) ''a'' = Some (JInt 1)"
    using spec[OF d2, of "''a''"] by simp
  have b: "attribute (Data d) ''b'' = Some (JStr ''x'')"
    using spec[OF d2, of "''b''"] by simp
  from d1 a b d3 have "\<exists>d. handle_response ?resp = Inr (Data d)
          \<and> attribute (Data d) ''a'' = Some (JInt 1)
          \<and> attribute (Data d) ''b'' = Some (JStr ''x'')
          \<and> attribute (Data d) ''response'' = Some (JObj ?r)"
    by blast
  with h1 h2 h3 show ?thesis by blast
qed

section \<open>The error field of an answer\<close>

lemma rpc_request_sent:
  "fst (rpc_request post self method params) = [posted_request self method params]"
  by (simp add: rpc_request_def posted_request_def Let_def)

lemma rpc_request_answer:
  assumes "post (posted_request self method params) = Inr response"
    and "status_ok (status_code response)"
    and "json_body response = Some (JObj result)"
  shows "snd (rpc_request post self method params) =
           (if dict_get result ''error'' \<noteq> JNull
            then Inl (Exception (''RPC Error: '' @ py_str (dict_get result ''error'')))
            else Inr result)"
  using assms
  by (simp add: rpc_request_def posted_request_def status_ok_def Let_def)

lemma and_then_fst: "fst (and_then c f) = fst c"
  by (cases "(c, f)" rule: and_then.cases) simp_all

lemma and_then_snd:
  "snd (and_then c f) = (case snd c of Inl e \<Rightarrow> Inl e | Inr x \<Rightarrow> f x)"
  by (cases "(c, f)" rule: and_then.cases) simp_all

lemma handle_response_not_rpc_error: "handle_response response \<noteq> Inl (Exception msg)"
  by (auto simp: handle_response_def VerusResponseData_init_def Let_def
           split: json.splits if_splits)

text \<open>
  A result that is no dictionary with a key \<^verbatim>\<open>self\<close> is normalised to a value.
\<close>

lemma handle_response_returns:
  assumes "\<forall>r. dict_get response ''result'' = JObj r \<longrightarrow> ''self'' \<notin> set (map fst r)"
  shows "\<exists>v. handle_response response = Inr v"
proof (cases "dict_get response ''result''")
  case (JObj r)
  with assms have "''self'' \<notin> set (map fst r)"
    by simp
  with JObj show ?thesis
    by (simp add: handle_response_def VerusResponseData_init_def)
qed (simp_all add: handle_response_def)

text \<open>
  What the interpreter prints for the payloads used below.
\<close>

lemma py_str_code_message:
  "py_str (JObj [(''code'', JInt (- 1)), (''message'', JStr ''bad'')])
     = ''{'' @ [CHR 0x27] @ ''code'' @ [CHR 0x27] @ '': -1, ''
         @ [CHR 0x27] @ ''message'' @ [CHR 0x27] @ '': ''
         @ [CHR 0x27] @ ''bad'' @ [CHR 0x27] @ ''}''"
  by (simp add: repr_str_def repr_char_def printable_def str_int_def str_nat.simps
                char_of_eq_iff Let_def)

lemma str_int_one: "str_int 1 = ''1''"
  by (simp add: str_int_def str_nat.simps char_of_eq_iff)

text \<open>
  C2, as stated: a non-null \<^verbatim>\<open>error\<close> raises an error that carries the payload
  verbatim, and a null \<^verbatim>\<open>error\<close> returns the normalised result. The exception of
  \<^verbatim>\<open>_rpc_request\<close> holds one string, the payload formatted after \<^verbatim>\<open>"RPC Error: "\<close>:
  the payloads \<open>1\<close> and \<^verbatim>\<open>"1"\<close> differ and raise the same exception, so the payload
  is not what the exception carries. And the answer
  \<^verbatim>\<open>{"result": {"self": 1}, "error": null}\<close> returns no result: the call raises
  \<^verbatim>\<open>TypeError\<close>.
\<close>

theorem rpc_error_payload_counterexample:
  "and_then (rpc_request (mocked (JObj [(''result'', JNull), (''error'', JInt 1)]))
       default_client ''getinfo'' []) handle_response
     = ([posted_request default_client ''getinfo'' []], Inl (Exception ''RPC Error: 1''))
   \<and> and_then (rpc_request (mocked (JObj [(''result'', JNull), (''error'', JStr ''1'')]))
       default_client ''getinfo'' []) handle_response
     = ([posted_request default_client ''getinfo'' []], Inl (Exception ''RPC Error: 1''))
   \<and> JInt 1 \<noteq> JStr ''1''
   \<and> and_then (rpc_request
         (mocked (JObj [(''result'', JObj [(''self'', JInt 1)]), (''error'', JNull)]))
       default_client ''getinfo'' []) handle_response
     = ([posted_request default_client ''getinfo'' []], Inl TypeError)"
  by (simp add: rpc_request_def posted_request_def mocked_def dict_get_def str_int_one
                handle_response_def VerusResponseData_init_def)

text \<open>
  C2, amended: the daemon answered the posted request with a decoded dictionary. When its
  \<^verbatim>\<open>error\<close> is not \<^verbatim>\<open>None\<close>, the call (\<^verbatim>\<open>_rpc_request\<close> followed by
  \<^verbatim>\<open>_handle_response\<close>, the body of every catalogue method) raises \<^verbatim>\<open>Exception\<close>
  with the message \<^verbatim>\<open>"RPC Error: "\<close> followed by the error payload of the daemon as
  \<^verbatim>\<open>str()\<close> formats it, and returns nothing. When \<^verbatim>\<open>error\<close> is \<^verbatim>\<open>None\<close> (or
  absent), the call yields what \<^verbatim>\<open>_handle_response\<close> yields for the answer, which is
  never that exception; and when the result is not a dictionary with a key \<^verbatim>\<open>self\<close>,
  the call returns the normalised result.
\<close>

theorem rpc_error_raised:
  assumes "post (posted_request self method params) = Inr response"
    and "status_ok (status_code response)"
    and "json_body response = Some (JObj result)"
  shows "(dict_get result ''error'' \<noteq> JNull \<longrightarrow>
            and_then (rpc_request post self method params) handle_response
              = ([posted_request self method params],
                 Inl (Exception (''RPC Error: '' @ py_str (dict_get result ''error'')))))
       \<and> (dict_get result ''error'' = JNull \<longrightarrow>
            and_then (rpc_request post self method params) handle_response
              = ([posted_request self method params], handle_response result)
            \<and> (\<forall>msg. handle_response result \<noteq> Inl (Exception msg))
            \<and> ((\<forall>r. dict_get result ''result'' = JObj r \<longrightarrow> ''self'' \<notin> set (map fst r))
                 \<longrightarrow> (\<exists>v. and_then (rpc_request post self method params) handle_response
                            = ([posted_request self method params], Inr v))))"
proof -
  let ?c = "rpc_request post self method params"
  let ?rpc_error = "Exception (''RPC Error: '' @ py_str (dict_get result ''error''))"
  have c: "?c = (fst ?c, snd ?c)"
    by simp
  have f: "fst ?c = [posted_request self method params]"
    by (rule rpc_request_sent)
  have s: "snd ?c = (if dict_get result ''error'' \<noteq> JNull then Inl ?rpc_error else Inr result)"
    using assms by (rule rpc_request_answer)
  show ?thesis
  proof (cases "dict_get result ''error'' = JNull")
    case True
    with s have "snd ?c = Inr result"
      by simp
    with c f have "?c = ([posted_request self method params], Inr result)"
      by simp
    then have call: "and_then ?c handle_response
                       = ([posted_request self method params], handle_response result)"
      by simp
    have returned:
      "(\<forall>r. dict_get result ''result'' = JObj r \<longrightarrow> ''self'' \<notin> set (map fst r))
         \<longrightarrow> (\<exists>v. and_then ?c handle_response = ([posted_request self method params], Inr v))"
    proof
      assume "\<forall>r. dict_get result ''result'' = JObj r \<longrightarrow> ''self'' \<notin> set (map fst r)"
      then obtain v where "handle_response result = Inr v"
        using handle_response_returns by blast
      with call show "\<exists>v. and_then ?c handle_response
                             = ([posted_request self method params], Inr v)"
        by simp
    qed
    from True call returned show ?thesis
      by (simp add: handle_response_not_rpc_error)
  next
    case False
    with s have "snd ?c = Inl ?rpc_error"
      by simp
    with c f have "?c = ([posted_request self method params], Inl ?rpc_error)"
      by simp
    then show ?thesis
      using False by simp
  qed
qed

text \<open>
  The same on the answers \<^verbatim>\<open>{"result": null, "error": {"code": -1, "message": "bad"}}\<close>,
  whose exception has the message \<^verbatim>\<open>RPC Error: {'code': -1, 'message': 'bad'}\<close>, and
  \<^verbatim>\<open>{"result": 42, "error": null}\<close> of a mocked daemon.
\<close>

theorem rpc_error_raised_witness:
  "mocked (JObj [(''result'', JNull),
                 (''error'', JObj [(''code'', JInt (- 1)), (''message'', JStr ''bad'')]),
                 (''id'', JStr ''python-client'')])
       (posted_request default_client ''getinfo'' [])
     = Inr \<lparr>status_code = 200,
            json_body = Some (JObj [(''result'', JNull),
                 (''error'', JObj [(''code'', JInt (- 1)), (''message'', JStr ''bad'')]),
                 (''id'', JStr ''python-client'')])\<rparr>
   \<and> status_ok 200
   \<and> and_then (rpc_request
         (mocked (JObj [(''result'', JNull),
                        (''error'', JObj [(''code'', JInt (- 1)), (''message'', JStr ''bad'')]),
                        (''id'', JStr ''python-client'')]))
         default_client ''getinfo'' []) handle_response
       = ([posted_request default_client ''getinfo'' []],
          Inl (Exception (''RPC Error: {'' @ [CHR 0x27] @ ''code'' @ [CHR 0x27] @ '': -1, ''
                 @ [CHR 0x27] @ ''message'' @ [CHR 0x27] @ '': ''
                 @ [CHR 0x27] @ ''bad'' @ [CHR 0x27] @ ''}'')))
   \<and> dict_get [(''result'', JInt 42), (''error'', JNull),
                 (''id'', JStr ''python-client'')] ''result'' = JInt 42
   \<and> and_then (rpc_request
         (mocked (JObj [(''result'', JInt 42), (''error'', JNull),
                        (''id'', JStr ''python-client'')]))
         default_client ''getinfo'' []) handle_response
       = ([posted_request default_client ''getinfo'' []], Inr (Plain (JInt 42)))"
proof -
  let ?bad = "[(''result'', JNull),
               (''error'', JObj [(''code'', JInt (- 1)), (''message'', JStr ''bad'')]),
               (''id'', JStr ''python-client'')]"
  let ?good = "[(''result'', JInt 42), (''error'', JNull), (''id'', JStr ''python-client'')]"
  let ?req = "posted_request default_client ''getinfo'' []"
  let ?rb = "\<lparr>status_code = 200, json_body = Some (JObj ?bad)\<rparr>"
  let ?rg = "\<lparr>status_code = 200, json_body = Some (JObj ?good)\<rparr>"
  have b1: "mocked (JObj ?bad) ?req = Inr ?rb"
    by (simp add: mocked_def)
  have g1: "mocked (JObj ?good) ?req = Inr ?rg"
    by (simp add: mocked_def)
  have okb: "status_ok (status_code ?rb)"
    by (simp add: status_ok_def)
  have okg: "status_ok (status_code ?rg)"
    by (simp add: status_ok_def)
  have ok: "status_ok 200"
    by (simp add: status_ok_def)
  have jb: "json_body ?rb = Some (JObj ?bad)"
    by simp
  have jg: "json_body ?rg = Some (JObj ?good)"
    by simp
  have eb: "dict_get ?bad ''error'' = JObj [(''code'', JInt (- 1)), (''message'', JStr ''bad'')]"
    by (simp add: dict_get_def)
  have eg: "dict_get ?good ''error'' = JNull"
    by (simp add: dict_get_def)
  have rg: "dict_get ?good ''result'' = JInt 42"
    by (simp add: dict_get_def)
  have sg: "\<forall>r. dict_get ?good ''result'' = JObj r \<longrightarrow> ''self'' \<notin> set (map fst r)"
    by (simp add: rg)
  have hg: "handle_response ?good = Inr (Plain (JInt 42))"
    by (simp add: handle_response_def dict_get_def)
  have bad: "and_then (rpc_request (mocked (JObj ?bad)) default_client ''getinfo'' [])
               handle_response
             = ([?req], Inl (Exception (''RPC Error: {'' @ [CHR 0x27] @ ''code'' @ [CHR 0x27]
                 @ '': -1, '' @ [CHR 0x27] @ ''message'' @ [CHR 0x27] @ '': ''
                 @ [CHR 0x27] @ ''bad'' @ [CHR 0x27] @ ''}'')))"
    using rpc_error_raised[of "mocked (JObj ?bad)" default_client "''getinfo''" "[]" ?rb ?bad,
        OF b1 okb jb] eb py_str_code_message
    by simp
  have good: "and_then (rpc_request (mocked (JObj ?good)) default_client ''getinfo'' [])
               handle_response
             = ([?req], Inr (Plain (JInt 42)))"
    using rpc_error_raised[of "mocked (JObj ?good)" default_client "''getinfo''" "[]" ?rg ?good,
        OF g1 okg jg] eg sg hg
    by simp
  from b1 ok bad rg good show ?thesis
    by blast
qed

section \<open>Construction\<close>

text \<open>
  The two literals of the constructor are in lower case already, and the ports print as
  their decimal digits.
\<close>

lemma str_nat_27486: "str_nat 27486 = ''27486''"
  by (simp add: str_nat.simps char_of_eq_iff)

lemma str_nat_18843: "str_nat 18843 = ''18843''"
  by (simp add: str_nat.simps char_of_eq_iff)

lemma lower_mainnet: "lower ''mainnet'' = ''mainnet''"
  by (simp add: lower_def lower_char_def char_of_eq_iff)

lemma lower_testnet: "lower ''testnet'' = ''testnet''"
  by (simp add: lower_def lower_char_def char_of_eq_iff)

text \<open>
  Comparing without case is comparing the lowered strings, which is what the constructor
  does.
\<close>

lemma equal_ignoring_case_lower: "equal_ignoring_case s t \<longleftrightarrow> lower s = lower t"
  unfolding equal_ignoring_case_def lower_def
  by (induction s arbitrary: t) (case_tac t; simp)+

lemma init_default: "init None None None None = Inr default_client"
  by (simp add: init_def default_client_def lower_mainnet str_nat_27486)

text \<open>
  C3: a network that is neither \<^verbatim>\<open>mainnet\<close> nor \<^verbatim>\<open>testnet\<close>, compared without
  case, makes the constructor raise \<^verbatim>\<open>ValueError\<close> (the configuration error of the
  client), so that no client is returned; a network that is one of the two, in any
  letter case, gives a client.
\<close>

theorem init_network:
  "(\<not> equal_ignoring_case nw ''mainnet'' \<and> \<not> equal_ignoring_case nw ''testnet''
      \<longrightarrow> init h (Some nw) u p = Inl (ValueError network_error))
   \<and> (equal_ignoring_case nw ''mainnet'' \<or> equal_ignoring_case nw ''testnet''
      \<longrightarrow> (\<exists>c. init h (Some nw) u p = Inr c))"
  by (simp add: equal_ignoring_case_lower lower_mainnet lower_testnet init_def Let_def)

lemma MainNet_is_mainnet: "equal_ignoring_case ''MainNet'' ''mainnet''"
  by (simp add: equal_ignoring_case_def lower_char_def char_of_eq_iff)

lemma TESTNET_is_testnet: "equal_ignoring_case ''TESTNET'' ''testnet''"
  by (simp add: equal_ignoring_case_def lower_char_def char_of_eq_iff)

lemma regtest_not_mainnet: "\<not> equal_ignoring_case ''regtest'' ''mainnet''"
  by (simp add: equal_ignoring_case_def lower_char_def char_of_eq_iff)

lemma regtest_not_testnet: "\<not> equal_ignoring_case ''regtest'' ''testnet''"
  by (simp add: equal_ignoring_case_def lower_char_def char_of_eq_iff)

text \<open>
  The networks \<^verbatim>\<open>regtest\<close> (refused), \<^verbatim>\<open>MainNet\<close> and \<^verbatim>\<open>TESTNET\<close> (accepted).
\<close>

theorem init_network_witness:
  "\<not> equal_ignoring_case ''regtest'' ''mainnet'' \<and> \<not> equal_ignoring_case ''regtest'' ''testnet''
   \<and> init None (Some ''regtest'') None None = Inl (ValueError network_error)
   \<and> equal_ignoring_case ''MainNet'' ''mainnet''
   \<and> (\<exists>c. init None (Some ''MainNet'') None None = Inr c)
   \<and> equal_ignoring_case ''TESTNET'' ''testnet''
   \<and> (\<exists>c. init None (Some ''TESTNET'') None None = Inr c)"
  using init_network[of "''regtest''" None None None]
        init_network[of "''MainNet''" None None None]
        init_network[of "''TESTNET''" None None None]
        MainNet_is_mainnet TESTNET_is_testnet regtest_not_mainnet regtest_not_testnet
  by blast

text \<open>
  C5: with network \<^verbatim>\<open>mainnet\<close> (in any letter case) the client has port 27486 and
  native currency \<^verbatim>\<open>vrsc\<close>, with \<^verbatim>\<open>testnet\<close> port 18843 and \<^verbatim>\<open>vrsctest\<close>; the
  URL of a client is \<^verbatim>\<open>http://\<close>, its host, a colon, its port in decimal and a slash.
  No method of the client takes or returns a changed client: every call below reads
  \<open>self\<close> only.
\<close>

theorem init_resolves:
  "(equal_ignoring_case nw ''mainnet'' \<longrightarrow>
      init (Some h) (Some nw) (Some u) (Some p)
        = Inr \<lparr>host = h, network = ''mainnet'', rpc_user = u, rpc_password = p,
               port = 27486, native_currency = ''vrsc'',
               url = ''http://'' @ h @ '':27486/''\<rparr>)
   \<and> (equal_ignoring_case nw ''testnet'' \<longrightarrow>
      init (Some h) (Some nw) (Some u) (Some p)
        = Inr \<lparr>host = h, network = ''testnet'', rpc_user = u, rpc_password = p,
               port = 18843, native_currency = ''vrsctest'',
               url = ''http://'' @ h @ '':18843/''\<rparr>)
   \<and> (\<forall>c. init (Some h) (Some nw) (Some u) (Some p) = Inr c \<longrightarrow>
          host c = h \<and> url c = ''http://'' @ host c @ '':'' @ str_nat (port c) @ ''/'')"
  by (auto simp: equal_ignoring_case_lower lower_mainnet lower_testnet init_def Let_def
                 str_nat_27486 str_nat_18843)

text \<open>
  The default host on mainnet and a named host on testnet.
\<close>

theorem init_resolves_witness:
  "equal_ignoring_case ''mainnet'' ''mainnet''
   \<and> init (Some ''127.0.0.1'') (Some ''mainnet'') (Some ''username'') (Some ''password'')
       = Inr \<lparr>host = ''127.0.0.1'', network = ''mainnet'', rpc_user = ''username'',
              rpc_password = ''password'', port = 27486, native_currency = ''vrsc'',
              url = ''http://127.0.0.1:27486/''\<rparr>
   \<and> equal_ignoring_case ''testnet'' ''testnet''
   \<and> init (Some ''node.example'') (Some ''testnet'') (Some ''alice'') (Some ''secret'')
       = Inr \<lparr>host = ''node.example'', network = ''testnet'', rpc_user = ''alice'',
              rpc_password = ''secret'', port = 18843, native_currency = ''vrsctest'',
              url = ''http://node.example:18843/''\<rparr>"
proof -
  have m: "equal_ignoring_case ''mainnet'' ''mainnet''"
    by (simp add: equal_ignoring_case_def)
  have t: "equal_ignoring_case ''testnet'' ''testnet''"
    by (simp add: equal_ignoring_case_def)
  from m init_resolves[of "''mainnet''" "''127.0.0.1''" "''username''" "''password''"]
  have a: "init (Some ''127.0.0.1'') (Some ''mainnet'') (Some ''username'') (Some ''password'')
       = Inr \<lparr>host = ''127.0.0.1'', network = ''mainnet'', rpc_user = ''username'',
              rpc_password = ''password'', port = 27486, native_currency = ''vrsc'',
              url = ''http://127.0.0.1:27486/''\<rparr>"
    by simp
  from t init_resolves[of "''testnet''" "''node.example''" "''alice''" "''secret''"]
  have b: "init (Some ''node.example'') (Some ''testnet'') (Some ''alice'') (Some ''secret'')
       = Inr \<lparr>host = ''node.example'', network = ''testnet'', rpc_user = ''alice'',
              rpc_password = ''secret'', port = 18843, native_currency = ''vrsctest'',
              url = ''http://node.example:18843/''\<rparr>"
    by simp
  from m t a b show ?thesis by blast
qed

section \<open>The request of a call\<close>

text \<open>
  C6: a call posts exactly one request: a POST to the URL of the client, with the
  client's user and password as basic authentication, the header
  \<^verbatim>\<open>content-type: text/plain\<close>, and as body the JSON object with \<^verbatim>\<open>jsonrpc\<close>
  \<^verbatim>\<open>"1.0"\<close>, \<^verbatim>\<open>id\<close> \<^verbatim>\<open>"python-client"\<close> whatever the call, the method name and the
  parameter list as given. Normalising the answer posts nothing more.
\<close>

theorem rpc_request_posts:
  "fst (rpc_request post self method params)
     = [\<lparr>req_verb = ''POST'', req_url = url self,
         req_auth = (rpc_user self, rpc_password self),
         req_data = JObj [(''jsonrpc'', JStr ''1.0''), (''id'', JStr ''python-client''),
                          (''method'', JStr method), (''params'', JArr params)],
         req_headers = [(''content-type'', ''text/plain'')]\<rparr>]
   \<and> fst (and_then (rpc_request post self method params) handle_response)
       = fst (rpc_request post self method params)"
  by (simp add: rpc_request_def Let_def and_then_fst)

section \<open>Catalogue entries\<close>

text \<open>
  C8: \<^verbatim>\<open>getbestblockhash()\<close> posts the method \<^verbatim>\<open>getbestblockhash\<close> with the empty
  parameter list, and on the answer
  \<^verbatim>\<open>{"result": "000abc", "error": null, "id": "x"}\<close> it returns the string
  \<^verbatim>\<open>"000abc"\<close>, not wrapped.
\<close>

theorem getbestblockhash_scenario:
  assumes "post (posted_request self ''getbestblockhash'' []) = Inr response"
    and "status_ok (status_code response)"
    and "json_body response
           = Some (JObj [(''result'', JStr ''000abc''), (''error'', JNull), (''id'', JStr ''x'')])"
  shows "getbestblockhash post self
           = ([\<lparr>req_verb = ''POST'', req_url = url self,
                req_auth = (rpc_user self, rpc_password self),
                req_data = JObj [(''jsonrpc'', JStr ''1.0''), (''id'', JStr ''python-client''),
                                 (''method'', JStr ''getbestblockhash''),
                                 (''params'', JArr [])],
                req_headers = [(''content-type'', ''text/plain'')]\<rparr>],
              Inr (Plain (JStr ''000abc'')))"
proof -
  let ?result = "[(''result'', JStr ''000abc''), (''error'', JNull), (''id'', JStr ''x'')]"
  let ?c = "rpc_request post self ''getbestblockhash'' []"
  have e: "dict_get ?result ''error'' = JNull"
  by (simp add: dict_get_def)
  have "snd ?c = (if dict_get ?result ''error'' \<noteq> JNull
                  then Inl (Exception (''RPC Error: '' @ py_str (dict_get ?result ''error'')))
                  else Inr ?result)"
    using assms by (rule rpc_request_answer)
  with e have s: "snd ?c = Inr ?result" by simp
  have f: "fst ?c = [posted_request self ''getbestblockhash'' []]"
  by (rule rpc_request_sent)
  have c: "?c = (fst ?c, snd ?c)" by simp
  have h: "handle_response ?result = Inr (Plain (JStr ''000abc''))"
    by (simp add: handle_response_def dict_get_def)
  from c f s have "?c = ([posted_request self ''getbestblockhash'' []], Inr ?result)" by simp
  then show ?thesis by (simp add: getbestblockhash_def h posted_request_def)
qed

text \<open>
  The default client against a daemon mocked with that answer.
\<close>

theorem getbestblockhash_scenario_witness:
  "mocked (JObj [(''result'', JStr ''000abc''), (''error'', JNull), (''id'', JStr ''x'')])
       (posted_request default_client ''getbestblockhash'' [])
     = Inr \<lparr>status_code = 200,
            json_body = Some (JObj [(''result'', JStr ''000abc''), (''error'', JNull),
                                    (''id'', JStr ''x'')])\<rparr>
   \<and> status_ok 200
   \<and> getbestblockhash
        (mocked (JObj [(''result'', JStr ''000abc''), (''error'', JNull), (''id'', JStr ''x'')]))
        default_client
     = ([\<lparr>req_verb = ''POST'', req_url = ''http://127.0.0.1:27486/'',
          req_auth = (''username'', ''password''),
          req_data = JObj [(''jsonrpc'', JStr ''1.0''), (''id'', JStr ''python-client''),
                           (''method'', JStr ''getbestblockhash''), (''params'', JArr [])],
          req_headers = [(''content-type'', ''text/plain'')]\<rparr>],
        Inr (Plain (JStr ''000abc'')))"
proof -
  let ?body = "JObj [(''result'', JStr ''000abc''), (''error'', JNull), (''id'', JStr ''x'')]"
  let ?r = "\<lparr>status_code = 200, json_body = Some ?body\<rparr>"
  have p: "mocked ?body (posted_request default_client ''getbestblockhash'' []) = Inr ?r"
    by (simp add: mocked_def)
  have ok: "status_ok (status_code ?r)"
  by (simp add: status_ok_def)
  have ok': "status_ok 200"
  by (simp add: status_ok_def)
  have j: "json_body ?r = Some ?body" by simp
  have g: "getbestblockhash (mocked ?body) default_client
     = ([\<lparr>req_verb = ''POST'', req_url = ''http://127.0.0.1:27486/'',
          req_auth = (''username'', ''password''),
          req_data = JObj [(''jsonrpc'', JStr ''1.0''), (''id'', JStr ''python-client''),
                           (''method'', JStr ''getbestblockhash''), (''params'', JArr [])],
          req_headers = [(''content-type'', ''text/plain'')]\<rparr>],
        Inr (Plain (JStr ''000abc'')))"
    using getbestblockhash_scenario[where post = "mocked ?body" and self = default_client
        and response = ?r, OF p ok j]
    by (simp add: default_client_def)
  from p ok' g show ?thesis by blast
qed

text \<open>
  C9: \<^verbatim>\<open>getblock("000abc", 2)\<close> posts the parameters \<^verbatim>\<open>["000abc", 2]\<close>; a given
  verbosity is passed on, and without one \<^verbatim>\<open>getblock(h)\<close> posts \<^verbatim>\<open>[h, 1]\<close>.
\<close>

theorem getblock_params:
  "map req_data (fst (getblock post self (JStr ''000abc'') (Some (JInt 2))))
     = [JObj [(''jsonrpc'', JStr ''1.0''), (''id'', JStr ''python-client''),
              (''method'', JStr ''getblock''),
              (''params'', JArr [JStr ''000abc'', JInt 2])]]
   \<and> map req_data (fst (getblock post self hash_or_height (Some verbosity)))
     = [JObj [(''jsonrpc'', JStr ''1.0''), (''id'', JStr ''python-client''),
              (''method'', JStr ''getblock''),
              (''params'', JArr [hash_or_height, verbosity])]]
   \<and> map req_data (fst (getblock post self hash_or_height None))
     = [JObj [(''jsonrpc'', JStr ''1.0''), (''id'', JStr ''python-client''),
              (''method'', JStr ''getblock''),
              (''params'', JArr [hash_or_height, JInt 1])]]"
  by (simp add: getblock_def and_then_fst rpc_request_sent posted_request_def)

text \<open>
  C7: the claim asks that \<^verbatim>\<open>getimports\<close> and \<^verbatim>\<open>getexports\<close> pass the currency
  followed by the height range. For the arguments \<^verbatim>\<open>("VRSC", 100, 200)\<close> the code
  does not: \<^verbatim>\<open>getimports\<close> builds \<^verbatim>\<open>params\<close> and then posts \<^verbatim>\<open>["VRSC"]\<close>, and
  \<^verbatim>\<open>getexports\<close> raises \<^verbatim>\<open>NameError\<close> on the misspelt parameter before it posts
  anything.
\<close>

theorem getimports_getexports_drop_heights:
  "map req_data (fst (getimports post self (JStr ''VRSC'') (Some (JInt 100)) (Some (JInt 200))))
     = [JObj [(''jsonrpc'', JStr ''1.0''), (''id'', JStr ''python-client''),
              (''method'', JStr ''getimports''), (''params'', JArr [JStr ''VRSC''])]]
   \<and> getexports post self (JStr ''VRSC'') (Some (JInt 100)) (Some (JInt 200))
       = ([], Inl (NameError ''currency''))"
  by (simp add: getimports_def getexports_def load_name_def Let_def and_then_fst
                rpc_request_sent posted_request_def)

section \<open>Normalisation of a value that is no dictionary\<close>

lemma handle_response_plain:
  "\<not> is_dict (dict_get response ''result'')
   \<Longrightarrow> handle_response response = Inr (Plain (dict_get response ''result''))"
  by (cases "dict_get response ''result''") (simp_all add: handle_response_def)

lemma dict_get_head: "dict_get ((k, v) # d) k = v"
  by (simp add: dict_get_def)

text \<open>
  C4: when the result of the answer is not a dictionary (a number, a string, a bool, a
  list, \<^verbatim>\<open>None\<close>, or no result at all), \<^verbatim>\<open>_handle_response\<close> returns it as it is;
  an answer that carries the returned value as its result normalises to the same value
  again.
\<close>

theorem handle_response_passthrough:
  assumes "\<not> is_dict (dict_get response ''result'')"
  shows "handle_response response = Inr (Plain (dict_get response ''result''))
       \<and> handle_response [(''result'', dict_get response ''result'')]
           = Inr (Plain (dict_get response ''result''))"
proof
  show "handle_response response = Inr (Plain (dict_get response ''result''))"
    using assms by (rule handle_response_plain)
  have "\<not> is_dict (dict_get [(''result'', dict_get response ''result'')] ''result'')"
    using assms by (simp add: dict_get_head)
  from handle_response_plain[OF this]
  show "handle_response [(''result'', dict_get response ''result'')]
           = Inr (Plain (dict_get response ''result''))"
    by (simp add: dict_get_head)
qed

text \<open>
  The results \<^verbatim>\<open>null\<close>, \<^verbatim>\<open>42\<close> and \<^verbatim>\<open>["x", "y"]\<close>.
\<close>

theorem handle_response_passthrough_witness:
  "\<not> is_dict (dict_get [(''result'', JNull), (''error'', JNull), (''id'', JStr ''x'')] ''result'')
   \<and> handle_response [(''result'', JNull), (''error'', JNull), (''id'', JStr ''x'')]
       = Inr (Plain JNull)
   \<and> \<not> is_dict (dict_get [(''result'', JInt 42), (''error'', JNull), (''id'', JStr ''x'')] ''result'')
   \<and> handle_response [(''result'', JInt 42), (''error'', JNull), (''id'', JStr ''x'')]
       = Inr (Plain (JInt 42))
   \<and> handle_response [(''result'', JInt 42)] = Inr (Plain (JInt 42))
   \<and> \<not> is_dict (dict_get [(''result'', JArr [JStr ''x'', JStr ''y'']), (''error'', JNull),
                            (''id'', JStr ''x'')] ''result'')
   \<and> handle_response [(''result'', JArr [JStr ''x'', JStr ''y'']), (''error'', JNull),
                       (''id'', JStr ''x'')]
       = Inr (Plain (JArr [JStr ''x'', JStr ''y'']))"
proof -
  let ?n = "[(''result'', JNull), (''error'', JNull), (''id'', JStr ''x'')]"
  let ?i = "[(''result'', JInt 42), (''error'', JNull), (''id'', JStr ''x'')]"
  let ?a = "[(''result'', JArr [JStr ''x'', JStr ''y'']), (''error'', JNull), (''id'', JStr ''x'')]"
  have gn: "dict_get ?n ''result'' = JNull"
  by (simp add: dict_get_def)
  have gi: "dict_get ?i ''result'' = JInt 42"
  by (simp add: dict_get_def)
  have ga: "dict_get ?a ''result'' = JArr [JStr ''x'', JStr ''y'']"
  by (simp add: dict_get_def)
  have hn: "\<not> is_dict (dict_get ?n ''result'')"
  by (simp add: gn)
  have hi: "\<not> is_dict (dict_get ?i ''result'')"
  by (simp add: gi)
  have ha: "\<not> is_dict (dict_get ?a ''result'')"
  by (simp add: ga)
  have n: "handle_response ?n = Inr (Plain JNull)"
    using handle_response_passthrough[OF hn] by (simp add: gn)
  have i: "handle_response ?i = Inr (Plain (JInt 42))"
       "handle_response [(''result'', JInt 42)] = Inr (Plain (JInt 42))"
    using handle_response_passthrough[OF hi] by (simp_all add: gi)
  have a: "handle_response ?a = Inr (Plain (JArr [JStr ''x'', JStr ''y'']))"
    using handle_response_passthrough[OF ha] by (simp add: ga)
  from hn hi ha n i a show ?thesis by blast
qed

section \<open>A result with a key named response\<close>

lemma handle_response_dict_general:
  assumes "dict_get response ''result'' = JObj r" and "''self'' \<notin> set (map fst r)"
  shows "handle_response response
           = Inr (Data (setitem ''response'' (JObj r) (dict_update [] r)))"
  using assms
  by (simp add: handle_response_def VerusResponseData_init_def setitem_twice)

text \<open>
  C10: when the result is a dictionary with a key \<^verbatim>\<open>response\<close>, whatever
  \<^verbatim>\<open>_handle_response\<close> returns has as attribute \<^verbatim>\<open>response\<close> the whole result
  dictionary and not the value the daemon sent under that key; that value is still found
  in the result dictionary, under \<^verbatim>\<open>response\<close>. A record is returned when the result
  has no key \<^verbatim>\<open>self\<close>.
\<close>

theorem handle_response_shadows_response_key:
  assumes "dict_get response ''result'' = JObj r"
    and "map_of r ''response'' = Some v"
  shows "(\<forall>res. handle_response response = Inr res \<longrightarrow>
            attribute res ''response'' = Some (JObj r)
            \<and> attribute res ''response'' \<noteq> Some v)
       \<and> (''self'' \<notin> set (map fst r) \<longrightarrow> (\<exists>d. handle_response response = Inr (Data d)))
       \<and> dict_get r ''response'' = v"
proof -
  from assms(2) have "(''response'', v) \<in> set r"
    by (rule map_of_SomeD)
  then have "size v < size (JObj r)"
    by (rule size_member)
  then have ne: "JObj r \<noteq> v"
    by auto
  from assms(2) have g: "dict_get r ''response'' = v"
    by (simp add: dict_get_def)
  show ?thesis
  proof (cases "''self'' \<in> set (map fst r)")
    case True
    with assms(1) have "handle_response response = Inl TypeError"
      by (simp add: handle_response_def VerusResponseData_init_def)
    with True g show ?thesis
      by simp
  next
    case False
    from handle_response_dict_general[OF assms(1) False] ne g False
    show ?thesis
      by (auto simp: map_of_setitem)
  qed
qed

text \<open>
  The result \<^verbatim>\<open>{"response": "ok", "height": 7}\<close>.
\<close>

theorem handle_response_shadows_response_key_witness:
  "dict_get [(''result'', JObj [(''response'', JStr ''ok''), (''height'', JInt 7)]),
             (''error'', JNull)] ''result''
     = JObj [(''response'', JStr ''ok''), (''height'', JInt 7)]
   \<and> ''self'' \<notin> set (map fst [(''response'', JStr ''ok''), (''height'', JInt 7)])
   \<and> map_of [(''response'', JStr ''ok''), (''height'', JInt 7)] ''response'' = Some (JStr ''ok'')
   \<and> (\<exists>d. handle_response [(''result'', JObj [(''response'', JStr ''ok''), (''height'', JInt 7)]),
                              (''error'', JNull)] = Inr (Data d)
          \<and> attribute (Data d) ''response''
              = Some (JObj [(''response'', JStr ''ok''), (''height'', JInt 7)])
          \<and> attribute (Data d) ''response'' \<noteq> Some (JStr ''ok''))"
proof -
  let ?r = "[(''response'', JStr ''ok''), (''height'', JInt 7)]"
  let ?resp = "[(''result'', JObj ?r), (''error'', JNull)]"
  have h1: "dict_get ?resp ''result'' = JObj ?r"
    by (simp add: dict_get_def)
  have h2: "''self'' \<notin> set (map fst ?r)"
    by simp
  have h3: "map_of ?r ''response'' = Some (JStr ''ok'')"
    by simp
  note c10 = handle_response_shadows_response_key[OF h1 h3]
  from c10 h2 obtain d where d: "handle_response ?resp = Inr (Data d)"
    by blast
  with c10 have "attribute (Data d) ''response'' = Some (JObj ?r)"
    and "attribute (Data d) ''response'' \<noteq> Some (JStr ''ok'')"
    by blast+
  with d have "\<exists>d. handle_response ?resp = Inr (Data d)
          \<and> attribute (Data d) ''response'' = Some (JObj ?r)
          \<and> attribute (Data d) ''response'' \<noteq> Some (JStr ''ok'')"
    by blast
  with h1 h2 h3 show ?thesis
    by blast
qed

end
